theory Spec2Isabelle
  imports Complex_Main "HOL-Library.AList"
begin

section \<open>Values shared by the companion's operations\<close>

text \<open>
  The model follows \<^verbatim>\<open>src/chess/chess_companion_standalone.py\<close>, class
  \<^verbatim>\<open>ChessCompanionSimplified\<close>.  Every exception the code handles with
  \<^verbatim>\<open>except Exception\<close> is a value of \<open>error\<close>; an operation of a collaborator
  (capture device, vision service, analyzer, file system) is a parameter that gives the
  outcome of the call: \<open>Inl e\<close> when it raises \<open>e\<close>, \<open>Inr v\<close> when it returns \<open>v\<close>.
\<close>

datatype error = ValueError string | KeyError string | OtherError string

text \<open>A video frame is never inspected by the code itself: it is an opaque identifier.\<close>

type_synonym frame = nat

text \<open>
  One perspective's analysis is a Python dict from field names to text, and the stored
  analysis is a dict from perspective names to such dicts.  Both are association lists;
  a dict is truthy when it is not empty.
\<close>

type_synonym analysis = "(string \<times> string) list"
type_synonym analyses = "(string \<times> analysis) list"

record board_mask =
  bbox :: "int \<times> int \<times> int \<times> int"
  confidence :: real
  timestamp :: real

record companion =
  current_board :: "string option"
  current_analysis :: "analyses option"
  analyzing :: bool
  commentary_buffer :: "string list"
  watching_mode :: bool
  current_board_mask :: "board_mask option"
  debug_mode :: bool

section \<open>The commentary buffer (\<^verbatim>\<open>_run_transcription_sync\<close>)\<close>

text \<open>
  \<^verbatim>\<open>str.strip()\<close> removes the characters for which \<^verbatim>\<open>str.isspace()\<close> holds; below
  code point 256 these are 9 to 13, 28 to 32, 133 and 160.  The stripped transcript is
  truthy when some character of it is not one of them.
\<close>

definition py_isspace :: "char \<Rightarrow> bool" where
  "py_isspace c =
     (let n = of_char c :: nat
      in (9 \<le> n \<and> n \<le> 13) \<or> (28 \<le> n \<and> n \<le> 32) \<or> n = 133 \<or> n = 160)"

definition strip_truthy :: "string \<Rightarrow> bool" where
  "strip_truthy t = list_ex (\<lambda>c. \<not> py_isspace c) t"

text \<open>
  A streaming response carries a list of results; a result carries its alternatives'
  transcripts and the \<^verbatim>\<open>is_final\<close> flag.
\<close>

record speech_result =
  alternatives :: "string list"
  is_final :: bool

type_synonym speech_response = "speech_result list"

text \<open>
  The two statements after \<^verbatim>\<open>self.commentary_buffer.append(transcript)\<close>: append, then
  keep the last ten lines when there are more than ten.
\<close>

definition commentary_append :: "string \<Rightarrow> string list \<Rightarrow> string list" where
  "commentary_append transcript buf =
     (let b = buf @ [transcript]
      in if length b > 10 then drop (length b - 10) b else b)"

text \<open>
  The guards of the loop body: a response without results, or whose first result has no
  alternative, is skipped; the first alternative's transcript is processed only when the
  result is final and the transcript is not blank.
\<close>

definition final_transcript :: "speech_response \<Rightarrow> string option" where
  "final_transcript response =
     (case response of
        [] \<Rightarrow> None
      | result # _ \<Rightarrow>
          (case alternatives result of
             [] \<Rightarrow> None
           | transcript # _ \<Rightarrow>
               if is_final result \<and> strip_truthy transcript then Some transcript else None))"

definition process_response :: "speech_response \<Rightarrow> companion \<Rightarrow> companion" where
  "process_response response s =
     (case final_transcript response of
        None \<Rightarrow> s
      | Some transcript \<Rightarrow>
          s\<lparr>commentary_buffer := commentary_append transcript (commentary_buffer s)\<rparr>)"

fun run_transcription_sync :: "speech_response list \<Rightarrow> companion \<Rightarrow> companion" where
  "run_transcription_sync [] s = s"
| "run_transcription_sync (response # responses) s =
     run_transcription_sync responses (process_response response s)"

text \<open>The transcripts a stream of responses appends, in arrival order.\<close>

definition appended :: "speech_response list \<Rightarrow> string list" where
  "appended responses = List.map_filter final_transcript responses"

section \<open>Construction (\<^verbatim>\<open>__init__\<close> and the main block)\<close>

text \<open>
  \<^verbatim>\<open>os.getenv\<close> reads the process environment, a map from names to values.  The
  constructor assigns the core state, then raises \<^verbatim>\<open>ValueError\<close> when
  \<^verbatim>\<open>not os.getenv("ROBOFLOW_API_KEY")\<close>: the variable is unset, or set to the empty
  string.  Everything after the check (debug directory, clients, engine pool, speech
  configuration) belongs to collaborators; \<open>rest\<close> is the error the first of them raises,
  if any.
\<close>

definition initial_companion :: "bool \<Rightarrow> bool \<Rightarrow> companion" where
  "initial_companion debug watching =
     \<lparr>current_board = None, current_analysis = None, analyzing = False,
      commentary_buffer = [], watching_mode = watching, current_board_mask = None,
      debug_mode = debug\<rparr>"

definition missing_key_error :: error where
  "missing_key_error =
     ValueError ''ROBOFLOW_API_KEY environment variable required for vision pipeline''"

definition companion_init ::
  "(string \<Rightarrow> string option) \<Rightarrow> bool \<Rightarrow> bool \<Rightarrow> error option \<Rightarrow> error + companion" where
  "companion_init getenv debug watching rest =
     (case getenv ''ROBOFLOW_API_KEY'' of
        None \<Rightarrow> Inl missing_key_error
      | Some v \<Rightarrow>
          if v = [] then Inl missing_key_error
          else (case rest of
                  Some e \<Rightarrow> Inl e
                | None \<Rightarrow> Inr (initial_companion debug watching)))"

text \<open>
  The main block constructs the companion and only then calls \<^verbatim>\<open>asyncio.run\<close> on its
  \<^verbatim>\<open>run\<close> method.  The result is the uncaught error, if any, and whether the pipeline
  was started.
\<close>

definition main_block ::
  "(string \<Rightarrow> string option) \<Rightarrow> bool \<Rightarrow> bool \<Rightarrow> error option \<Rightarrow> error option \<times> bool" where
  "main_block getenv debug no_watch rest =
     (case companion_init getenv debug (\<not> no_watch) rest of
        Inl e \<Rightarrow> (Some e, False)
      | Inr c \<Rightarrow> (None, True))"

section \<open>Observable calls\<close>

text \<open>
  The calls an operation makes on its collaborators and on the event loop, in order.
  \<open>Fallback\<close> marks an entry into \<^verbatim>\<open>_fallback_full_detection\<close>.
\<close>

datatype event =
    Fallback frame
  | DetectPiecesDirect string
  | ConsensusPieceDetection string nat nat "string option"
  | Unlink string
  | CreateAnalysisTask string frame
  | AnalyzeBothPerspectives string frame "string list"
  | SendClientContent string bool

definition debug_dir_arg :: "companion \<Rightarrow> string option" where
  "debug_dir_arg s = (if debug_mode s then Some ''debug_chess_frames'' else None)"

definition empty_board :: string where
  "empty_board = ''8/8/8/8/8/8/8/8''"

section \<open>The board-mask cache (\<^verbatim>\<open>update_board_mask\<close>)\<close>

text \<open>
  The segmentation result is a dict whose \<^verbatim>\<open>predictions\<close> entry, when present, is a list;
  the extracted bounding box is \<^verbatim>\<open>None\<close> or a dict with \<^verbatim>\<open>coords\<close> and
  \<^verbatim>\<open>confidence\<close>.  \<open>mask_segment\<close> covers the conversion to 1024 by 1024, the
  construction of the pipeline and \<^verbatim>\<open>segment_board_direct\<close>.
\<close>

type_synonym prediction = string

record bbox_result =
  coords :: "int \<times> int \<times> int \<times> int"
  bbox_confidence :: real

record mask_env =
  mask_now :: real
  mask_cap_read :: "error + frame option"
  mask_segment :: "frame \<Rightarrow> error + prediction list option"
  mask_extract_bbox :: "prediction list \<Rightarrow> error + bbox_result option"

definition update_board_mask :: "mask_env \<Rightarrow> companion \<Rightarrow> companion" where
  "update_board_mask env s =
     (case mask_cap_read env of
        Inl e \<Rightarrow> s\<lparr>current_board_mask := None\<rparr>
      | Inr None \<Rightarrow> s
      | Inr (Some screenshot) \<Rightarrow>
          (case mask_segment env screenshot of
             Inl e \<Rightarrow> s\<lparr>current_board_mask := None\<rparr>
           | Inr None \<Rightarrow> s\<lparr>current_board_mask := None\<rparr>
           | Inr (Some preds) \<Rightarrow>
               if preds = [] then s\<lparr>current_board_mask := None\<rparr>
               else (case mask_extract_bbox env preds of
                       Inl e \<Rightarrow> s\<lparr>current_board_mask := None\<rparr>
                     | Inr None \<Rightarrow> s\<lparr>current_board_mask := None\<rparr>
                     | Inr (Some b) \<Rightarrow>
                         s\<lparr>current_board_mask :=
                             Some \<lparr>bbox = coords b, confidence = bbox_confidence b,
                                   timestamp = mask_now env\<rparr>\<rparr>)))"

text \<open>
  Whether the update failed: every way of not caching a fresh mask named by the code's
  own messages (capture, no predictions, no bounding box, an exception).
\<close>

definition mask_update_succeeds :: "mask_env \<Rightarrow> bool" where
  "mask_update_succeeds env =
     (case mask_cap_read env of
        Inr (Some screenshot) \<Rightarrow>
          (case mask_segment env screenshot of
             Inr (Some preds) \<Rightarrow>
               preds \<noteq> [] \<and>
               (case mask_extract_bbox env preds of Inr (Some b) \<Rightarrow> True | _ \<Rightarrow> False)
           | _ \<Rightarrow> False)
      | _ \<Rightarrow> False)"

section \<open>The fallback detector (\<^verbatim>\<open>_fallback_full_detection\<close>)\<close>

text \<open>
  The consensus result is a dict; \<^verbatim>\<open>piece_count\<close> is read with default 0 and
  \<^verbatim>\<open>consensus_fen\<close> by subscript, so a missing \<^verbatim>\<open>consensus_fen\<close> raises
  \<^verbatim>\<open>KeyError\<close>.  Every exception ends in \<^verbatim>\<open>return None\<close>.
\<close>

record consensus_result =
  piece_count :: "int option"
  consensus_fen :: "string option"

record fallback_env =
  save_frame_to_temp :: "frame \<Rightarrow> error + string"
  consensus_piece_detection ::
    "string \<Rightarrow> nat \<Rightarrow> nat \<Rightarrow> string option \<Rightarrow> error + consensus_result"
  unlink :: "string \<Rightarrow> error option"

definition fallback_full_detection ::
  "fallback_env \<Rightarrow> companion \<Rightarrow> frame \<Rightarrow> string option \<times> event list" where
  "fallback_full_detection env s frame =
     (case save_frame_to_temp env frame of
        Inl e \<Rightarrow> (None, [Fallback frame])
      | Inr temp_path \<Rightarrow>
          (let called = [Fallback frame,
                         ConsensusPieceDetection temp_path 7 3 (debug_dir_arg s)]
           in case consensus_piece_detection env temp_path 7 3 (debug_dir_arg s) of
                Inl e \<Rightarrow> (None, called)
              | Inr result \<Rightarrow>
                  (let count = (case piece_count result of None \<Rightarrow> 0 | Some n \<Rightarrow> n)
                   in if count < 2 then (None, called @ [Unlink temp_path])
                      else (case consensus_fen result of
                              None \<Rightarrow> (None, called)
                            | Some new_fen \<Rightarrow>
                                (case unlink env temp_path of
                                   Some e \<Rightarrow> (None, called @ [Unlink temp_path])
                                 | None \<Rightarrow>
                                     if new_fen = empty_board
                                     then (None, called @ [Unlink temp_path])
                                     else (Some new_fen, called @ [Unlink temp_path]))))))"

section \<open>The fast path (\<^verbatim>\<open>extract_fen_with_cached_mask\<close>)\<close>

text \<open>
  The piece detector returns \<^verbatim>\<open>None\<close> or a dict: its \<^verbatim>\<open>predictions\<close> entry when
  present, and whether it has any other entry (an empty dict is falsy).
  \<open>fast_crop\<close> covers the conversion to 1024 by 1024 and the crop by the cached box, and
  gives the crop's size; \<open>detect_pieces_direct\<close> covers the resize to 640 by 640, the
  construction of the pipeline and the one detection call; \<open>debug_save\<close> is the error
  of saving the debug crop, if any.
\<close>

record detection =
  predictions :: "prediction list option"
  other_entries :: bool

definition detection_truthy :: "detection \<Rightarrow> bool" where
  "detection_truthy d = (predictions d \<noteq> None \<or> other_entries d)"

definition model_id :: string where
  "model_id = ''chess.comdetection/4''"

record fast_env =
  fast_crop :: "frame \<Rightarrow> int \<times> int \<times> int \<times> int \<Rightarrow> error + nat \<times> nat"
  detect_pieces_direct :: "string \<Rightarrow> error + detection option"
  pieces_to_fen_from_dimensions :: "detection \<Rightarrow> nat \<Rightarrow> nat \<Rightarrow> string \<Rightarrow> error + string"
  debug_save :: "error option"

definition prepend_events :: "event list \<Rightarrow> 'a \<times> event list \<Rightarrow> 'a \<times> event list" where
  "prepend_events evs r = (fst r, evs @ snd r)"

definition extract_fen_with_cached_mask ::
  "fast_env \<Rightarrow> fallback_env \<Rightarrow> companion \<Rightarrow> frame \<Rightarrow> string option \<times> event list" where
  "extract_fen_with_cached_mask env fenv s frame =
     (case current_board_mask s of
        None \<Rightarrow> fallback_full_detection fenv s frame
      | Some cached \<Rightarrow>
          (case fast_crop env frame (bbox cached) of
             Inl e \<Rightarrow> fallback_full_detection fenv s frame
           | Inr (w, h) \<Rightarrow>
               if w = 0 \<or> h = 0 then fallback_full_detection fenv s frame
               else
                 (let called = [DetectPiecesDirect model_id];
                      fall_back = prepend_events called (fallback_full_detection fenv s frame)
                  in case detect_pieces_direct env model_id of
                       Inl e \<Rightarrow> fall_back
                     | Inr None \<Rightarrow> fall_back
                     | Inr (Some piece_result) \<Rightarrow>
                         if \<not> detection_truthy piece_result then fall_back
                         else
                           (let piece_count :: nat =
                                  length (case predictions piece_result of
                                            None \<Rightarrow> [] | Some ps \<Rightarrow> ps)
                            in if piece_count < 2 then (None, called)
                               else
                                 (case pieces_to_fen_from_dimensions env piece_result
                                         640 640 model_id of
                                    Inl e \<Rightarrow> fall_back
                                  | Inr fen \<Rightarrow>
                                      if fen = empty_board then (None, called)
                                      else if debug_mode s
                                      then (case debug_save env of
                                              Some e \<Rightarrow> fall_back
                                            | None \<Rightarrow> (Some fen, called))
                                      else (Some fen, called))))))"

section \<open>The polling loop (\<^verbatim>\<open>fast_fen_detection_loop\<close>, \<^verbatim>\<open>on_board_change\<close>)\<close>

text \<open>
  \<^verbatim>\<open>on_board_change\<close> prints the board (an exception there is caught and only logged),
  stores the new position, and creates the analysis task unless an analysis is running.
\<close>

definition on_board_change :: "companion \<Rightarrow> string \<Rightarrow> frame \<Rightarrow> companion \<times> event list" where
  "on_board_change s new_fen frame =
     (s\<lparr>current_board := Some new_fen\<rparr>,
      if \<not> analyzing s then [CreateAnalysisTask new_fen frame] else [])"

text \<open>
  One pass through the body of the loop.  \<open>is_valid_fen\<close> is whether
  \<^verbatim>\<open>chess.Board(fen)\<close> accepts the string (a library outside the repository); the
  counter \<^verbatim>\<open>detection_count\<close> is the loop's local variable.  The result is the new
  state, the new counter and the calls made.
\<close>

record loop_env =
  loop_cap_read :: "error + frame option"
  is_valid_fen :: "string \<Rightarrow> bool"
  loop_fast :: fast_env
  loop_fallback :: fallback_env

definition fast_fen_detection_step ::
  "loop_env \<Rightarrow> companion \<Rightarrow> nat \<Rightarrow> companion \<times> nat \<times> event list" where
  "fast_fen_detection_step env s detection_count =
     (if current_board_mask s = None then (s, detection_count, [])
      else
        (case loop_cap_read env of
           Inl e \<Rightarrow> (s, detection_count + 1, [])
         | Inr None \<Rightarrow> (s, detection_count + 1, [])
         | Inr (Some frame) \<Rightarrow>
             (let (new_fen, evs) =
                    extract_fen_with_cached_mask (loop_fast env) (loop_fallback env) s frame
              in case new_fen of
                   None \<Rightarrow> (s, detection_count + 1, evs)
                 | Some fen \<Rightarrow>
                     if fen \<noteq> [] \<and> is_valid_fen env fen
                     then (if Some fen \<noteq> current_board s
                           then (let (s', evs') = on_board_change s fen frame
                                 in (s', detection_count + 1, evs @ evs'))
                           else (s, detection_count + 1, evs))
                     else (s, detection_count + 1, evs))))"

section \<open>The analysis scheduler (\<^verbatim>\<open>analyze_new_position\<close>)\<close>

text \<open>
  \<^verbatim>\<open>send_analysis_to_gemini\<close> catches every exception itself; what it does is one
  \<^verbatim>\<open>send_client_content\<close> call with the formatted text (or the default text) and,
  when the analysis has a truthy \<^verbatim>\<open>board_screenshot\<close>, the screenshot.
\<close>

definition send_analysis_to_gemini :: "analysis \<Rightarrow> event list" where
  "send_analysis_to_gemini a =
     [SendClientContent
        (case map_of a ''formatted_for_gemini'' of
           None \<Rightarrow> ''Analysis unavailable'' | Some t \<Rightarrow> t)
        (case map_of a ''board_screenshot'' of None \<Rightarrow> False | Some v \<Rightarrow> v \<noteq> [])]"

text \<open>
  The part of \<^verbatim>\<open>analyze_new_position\<close> between the analyzer's answer and the next
  suspension.  The result is the state, and the analysis whose sending is awaited: with
  \<open>None\<close> the \<^verbatim>\<open>finally\<close> block has run, with \<open>Some a\<close> the task is suspended in
  \<^verbatim>\<open>send_analysis_to_gemini\<close> and the flag is still set.  A stored analysis without a
  \<^verbatim>\<open>white\<close> entry raises \<^verbatim>\<open>KeyError\<close> in watching mode, which is caught.
\<close>

definition analysis_after_analyzer ::
  "error + analyses \<Rightarrow> companion \<Rightarrow> companion \<times> analysis option" where
  "analysis_after_analyzer outcome s =
     (case outcome of
        Inl e \<Rightarrow> (s\<lparr>analyzing := False\<rparr>, None)
      | Inr an \<Rightarrow>
          (let s1 = s\<lparr>current_analysis := Some an\<rparr>
           in if watching_mode s1
              then (case map_of an ''white'' of
                      None \<Rightarrow> (s1\<lparr>analyzing := False\<rparr>, None)
                    | Some a \<Rightarrow> (s1, Some a))
              else (s1\<lparr>analyzing := False\<rparr>, None)))"

text \<open>The whole coroutine, run without interleaving; \<open>outcome\<close> is the analyzer's answer.\<close>

definition analyze_new_position ::
  "error + analyses \<Rightarrow> companion \<Rightarrow> string \<Rightarrow> frame \<Rightarrow> companion \<times> event list" where
  "analyze_new_position outcome s fen frame =
     (if analyzing s then (s, [])
      else
        (let s1 = s\<lparr>analyzing := True\<rparr>;
             called = [AnalyzeBothPerspectives fen frame (commentary_buffer s1)];
             (s2, to_send) = analysis_after_analyzer outcome s1
         in case to_send of
              None \<Rightarrow> (s2, called)
            | Some a \<Rightarrow> (s2\<lparr>analyzing := False\<rparr>, called @ send_analysis_to_gemini a)))"

section \<open>The tool path (\<^verbatim>\<open>handle_tool_call\<close>)\<close>

record tool_env =
  tool_cap_read :: "error + frame option"
  extract_broadcast_context :: "frame \<Rightarrow> error + string"
  determine_query_perspective :: "string \<Rightarrow> string \<Rightarrow> error + string"
  format_for_live_model :: "analysis \<Rightarrow> error + string"

record function_call =
  fc_name :: string
  fc_args :: "(string \<times> string) list"

datatype tool_result =
    AnalysisReady string string string
  | NoAnalysis
  | WatchingModeStarted
  | WatchingModeStopped
  | UnknownFunction string

text \<open>
  The \<^verbatim>\<open>try\<close> block that picks the perspective; its bare \<^verbatim>\<open>except\<close> turns every
  exception into \<^verbatim>\<open>"white"\<close>.
\<close>

definition resolve_perspective :: "tool_env \<Rightarrow> string \<Rightarrow> string" where
  "resolve_perspective env user_query =
     (case tool_cap_read env of
        Inl e \<Rightarrow> ''white''
      | Inr None \<Rightarrow> ''white''
      | Inr (Some frame) \<Rightarrow>
          (case extract_broadcast_context env frame of
             Inl e \<Rightarrow> ''white''
           | Inr broadcast_context \<Rightarrow>
               (case determine_query_perspective env user_query broadcast_context of
                  Inl e \<Rightarrow> ''white''
                | Inr color \<Rightarrow> color)))"

text \<open>
  \<^verbatim>\<open>self.current_analysis.get(color, self.current_analysis.get("white", {}))\<close>.
\<close>

definition pick_analysis :: "analyses \<Rightarrow> string \<Rightarrow> analysis" where
  "pick_analysis an color =
     (case map_of an color of
        Some a \<Rightarrow> a
      | None \<Rightarrow> (case map_of an ''white'' of Some a \<Rightarrow> a | None \<Rightarrow> []))"

text \<open>
  One function call of a tool call: the response, the new state and the calls made.  An
  exception of \<^verbatim>\<open>_format_for_live_model\<close> is not caught in \<^verbatim>\<open>handle_tool_call\<close>.
\<close>

definition handle_function_call ::
  "tool_env \<Rightarrow> companion \<Rightarrow> function_call \<Rightarrow> error + tool_result \<times> companion \<times> event list" where
  "handle_function_call env s fc =
     (if fc_name fc = ''analyze_current_position'' then
        (let user_query = (case map_of (fc_args fc) ''query'' of
                             None \<Rightarrow> ''Analyze the current chess position''
                           | Some q \<Rightarrow> q)
         in case current_analysis s of
              None \<Rightarrow> Inr (NoAnalysis, s, [])
            | Some an \<Rightarrow>
                if an = [] then Inr (NoAnalysis, s, [])
                else
                  (let color = resolve_perspective env user_query;
                       a = pick_analysis an color
                   in if a = [] then Inr (NoAnalysis, s, [])
                      else
                        (case format_for_live_model env
                                (AList.update ''user_query'' user_query a) of
                           Inl e \<Rightarrow> Inl e
                         | Inr text \<Rightarrow> Inr (AnalysisReady text user_query color, s, []))))
      else if fc_name fc = ''start_watching_mode'' then
        Inr (WatchingModeStarted, s\<lparr>watching_mode := True\<rparr>, [])
      else if fc_name fc = ''stop_watching_mode'' then
        Inr (WatchingModeStopped, s\<lparr>watching_mode := False\<rparr>, [])
      else Inr (UnknownFunction (fc_name fc), s, []))"

section \<open>Interleaving of the tasks\<close>

text \<open>
  The coroutines run on one event loop and interleave only where they await.  An analysis
  task is pending from \<^verbatim>\<open>asyncio.create_task\<close> until the loop first runs it, then
  awaits the analyzer, then possibly awaits the sending.  An action is one uninterrupted
  stretch of one coroutine; an action that names no task in the right phase does nothing.
\<close>

datatype task = Pending string frame | AwaitAnalyzer string frame | AwaitSend analysis

datatype action =
    BoardChange string frame
  | Start nat
  | AnalyzerAnswers nat "error + analyses"
  | SendDone nat
  | Transcripts "speech_response list"
  | ToolCall tool_env function_call
  | MaskUpdate mask_env

type_synonym config = "companion \<times> task list"

definition remove_task :: "nat \<Rightarrow> task list \<Rightarrow> task list" where
  "remove_task i ts = take i ts @ drop (Suc i) ts"

fun created_tasks :: "event list \<Rightarrow> task list" where
  "created_tasks [] = []"
| "created_tasks (CreateAnalysisTask fen frame # evs) = Pending fen frame # created_tasks evs"
| "created_tasks (_ # evs) = created_tasks evs"

fun perform :: "action \<Rightarrow> config \<Rightarrow> config" where
  "perform (BoardChange fen frame) (s, ts) =
     (let (s', evs) = on_board_change s fen frame in (s', ts @ created_tasks evs))"
| "perform (Start i) (s, ts) =
     (if i < length ts
      then (case ts ! i of
              Pending fen frame \<Rightarrow>
                if analyzing s then (s, remove_task i ts)
                else (s\<lparr>analyzing := True\<rparr>, ts[i := AwaitAnalyzer fen frame])
            | _ \<Rightarrow> (s, ts))
      else (s, ts))"
| "perform (AnalyzerAnswers i outcome) (s, ts) =
     (if i < length ts
      then (case ts ! i of
              AwaitAnalyzer fen frame \<Rightarrow>
                (case analysis_after_analyzer outcome s of
                   (s', None) \<Rightarrow> (s', remove_task i ts)
                 | (s', Some a) \<Rightarrow> (s', ts[i := AwaitSend a]))
            | _ \<Rightarrow> (s, ts))
      else (s, ts))"
| "perform (SendDone i) (s, ts) =
     (if i < length ts
      then (case ts ! i of
              AwaitSend a \<Rightarrow> (s\<lparr>analyzing := False\<rparr>, remove_task i ts)
            | _ \<Rightarrow> (s, ts))
      else (s, ts))"
| "perform (Transcripts responses) (s, ts) = (run_transcription_sync responses s, ts)"
| "perform (ToolCall env fc) (s, ts) =
     (case handle_function_call env s fc of
        Inl e \<Rightarrow> (s, ts)
      | Inr (r, s', evs) \<Rightarrow> (s', ts @ created_tasks evs))"
| "perform (MaskUpdate env) (s, ts) = (update_board_mask env s, ts)"

fun run_actions :: "action list \<Rightarrow> config \<Rightarrow> config" where
  "run_actions [] c = c"
| "run_actions (a # as) c = run_actions as (perform a c)"

text \<open>The analyses in flight: the tasks past the guard of \<^verbatim>\<open>analyze_new_position\<close>.\<close>

fun in_flight :: "task \<Rightarrow> bool" where
  "in_flight (Pending fen frame) = False"
| "in_flight (AwaitAnalyzer fen frame) = True"
| "in_flight (AwaitSend a) = True"

definition analyses_in_flight :: "task list \<Rightarrow> nat" where
  "analyses_in_flight ts = length (filter in_flight ts)"

section \<open>Observers used to state the properties\<close>

text \<open>
  The consensus requests among the calls made: the number of passes and the minimum
  agreeing count of each one.
\<close>

fun consensus_requests :: "event list \<Rightarrow> (nat \<times> nat) list" where
  "consensus_requests [] = []"
| "consensus_requests (ConsensusPieceDetection path n min_consensus d # evs) =
     (n, min_consensus) # consensus_requests evs"
| "consensus_requests (_ # evs) = consensus_requests evs"

text \<open>
  The scheduler's invariant on a configuration: an analysis is in flight exactly when the
  busy flag is set, and then it is the only one.
\<close>

definition scheduler_inv :: "config \<Rightarrow> bool" where
  "scheduler_inv c = (analyses_in_flight (snd c) = (if analyzing (fst c) then 1 else 0))"

section \<open>Properties of the commentary buffer\<close>

lemma commentary_append_last:
  "length buf \<le> 10 \<Longrightarrow>
   commentary_append t buf = drop (length (buf @ [t]) - 10) (buf @ [t])"
  by (simp add: commentary_append_def Let_def)

lemma commentary_append_length:
  "length buf \<le> 10 \<Longrightarrow> length (commentary_append t buf) \<le> 10"
  by (simp add: commentary_append_def Let_def)

lemma window_compose:
  fixes xs ys :: "'a list"
  shows "drop (length (drop (length xs - 10) xs @ ys) - 10) (drop (length xs - 10) xs @ ys)
         = drop (length (xs @ ys) - 10) (xs @ ys)"
proof (cases "length xs \<le> 10")
  case True
  then show ?thesis by simp
next
  case False
  then have e: "drop (length xs - 10) xs @ ys = drop (length xs - 10) (xs @ ys)"
    by simp
  have "length (drop (length xs - 10) (xs @ ys)) - 10 + (length xs - 10) = length (xs @ ys) - 10"
    using False by simp
  then show ?thesis
    unfolding e by (simp only: drop_drop)
qed

lemma run_transcription_other_fields:
  "current_board (run_transcription_sync rs s) = current_board s \<and>
   current_analysis (run_transcription_sync rs s) = current_analysis s \<and>
   analyzing (run_transcription_sync rs s) = analyzing s \<and>
   watching_mode (run_transcription_sync rs s) = watching_mode s \<and>
   current_board_mask (run_transcription_sync rs s) = current_board_mask s"
  by (induction rs arbitrary: s) (auto simp: process_response_def split: option.splits)

lemma run_transcription_window:
  "length (commentary_buffer s) \<le> 10 \<Longrightarrow>
   commentary_buffer (run_transcription_sync rs s)
     = drop (length (commentary_buffer s @ appended rs) - 10) (commentary_buffer s @ appended rs)"
proof (induction rs arbitrary: s)
  case Nil
  then show ?case by (simp add: appended_def map_filter_simps)
next
  case (Cons r rs)
  show ?case
  proof (cases "final_transcript r")
    case None
    with Cons show ?thesis
      by (simp add: process_response_def appended_def map_filter_simps)
  next
    case (Some t)
    let ?b = "commentary_append t (commentary_buffer s)"
    have len: "length ?b \<le> 10"
      using Cons.prems by (rule commentary_append_length)
    have b: "?b = drop (length (commentary_buffer s @ [t]) - 10) (commentary_buffer s @ [t])"
      using Cons.prems by (rule commentary_append_last)
    have "commentary_buffer (run_transcription_sync (r # rs) s)
          = drop (length (?b @ appended rs) - 10) (?b @ appended rs)"
      using Cons.IH [of "process_response r s"] len Some
      by (simp add: process_response_def)
    also have "\<dots> = drop (length ((commentary_buffer s @ [t]) @ appended rs) - 10)
                        ((commentary_buffer s @ [t]) @ appended rs)"
      unfolding b by (rule window_compose)
    finally show ?thesis
      using Some by (simp add: appended_def map_filter_simps)
  qed
qed

text \<open>
  Claim C6.  From a buffer of at most ten lines (the constructor's buffer is empty), after
  any stream of responses the buffer holds at most ten lines; it is the last ten of the
  old lines followed by the appended finalized transcripts, in arrival order; and once
  more than ten transcripts were appended it is exactly the ten most recent of them.
\<close>

theorem commentary_buffer_fifo_bound:
  assumes "length (commentary_buffer s) \<le> 10"
  shows "length (commentary_buffer (run_transcription_sync rs s)) \<le> 10 \<and>
         commentary_buffer (run_transcription_sync rs s)
           = drop (length (commentary_buffer s @ appended rs) - 10)
               (commentary_buffer s @ appended rs) \<and>
         (length (appended rs) > 10 \<longrightarrow>
            commentary_buffer (run_transcription_sync rs s)
              = drop (length (appended rs) - 10) (appended rs))"
proof -
  have w: "commentary_buffer (run_transcription_sync rs s)
           = drop (length (commentary_buffer s @ appended rs) - 10)
               (commentary_buffer s @ appended rs)"
    using assms by (rule run_transcription_window)
  have l: "length (commentary_buffer (run_transcription_sync rs s)) \<le> 10"
    unfolding w by simp
  have m: "length (appended rs) > 10 \<longrightarrow>
           commentary_buffer (run_transcription_sync rs s)
             = drop (length (appended rs) - 10) (appended rs)"
    unfolding w by (simp add: drop_append)
  from l w m show ?thesis by blast
qed

theorem commentary_buffer_fifo_bound_witness:
  "length (commentary_buffer (initial_companion False True)) \<le> 10 \<and>
   commentary_buffer
     (run_transcription_sync
        (map (\<lambda>t. [\<lparr>alternatives = [t], is_final = True\<rparr>])
           [''T1'', ''T2'', ''T3'', ''T4'', ''T5'', ''T6'', ''T7'', ''T8'', ''T9'', ''T10'', ''T11''])
        (initial_companion False True))
     = [''T2'', ''T3'', ''T4'', ''T5'', ''T6'', ''T7'', ''T8'', ''T9'', ''T10'', ''T11'']"
  using commentary_buffer_fifo_bound
    [of "initial_companion False True"
        "map (\<lambda>t. [\<lparr>alternatives = [t], is_final = True\<rparr>])
           [''T1'', ''T2'', ''T3'', ''T4'', ''T5'', ''T6'', ''T7'', ''T8'', ''T9'', ''T10'', ''T11'']"]
  by (simp add: initial_companion_def appended_def map_filter_simps final_transcript_def
        strip_truthy_def py_isspace_def)

section \<open>Properties of construction\<close>

text \<open>
  Claim C8, as the claim states it, fails when the variable is present but empty: the
  constructor raises the same error before anything else is built, and the pipeline is not
  started.
\<close>

theorem companion_init_empty_key_counterexample:
  "[''ROBOFLOW_API_KEY'' \<mapsto> ''''] ''ROBOFLOW_API_KEY'' \<noteq> None \<and>
   companion_init [''ROBOFLOW_API_KEY'' \<mapsto> ''''] False True None = Inl missing_key_error \<and>
   main_block [''ROBOFLOW_API_KEY'' \<mapsto> ''''] False False None = (Some missing_key_error, False)"
  by (simp add: companion_init_def main_block_def)

text \<open>
  Claim C8, amended.  When \<^verbatim>\<open>ROBOFLOW_API_KEY\<close> is unset or empty, construction fails
  with the \<^verbatim>\<open>ValueError\<close> of the check and the main block never starts the pipeline;
  when it is set to a non-empty value the check passes, and construction fails only if a
  later component does.
\<close>

theorem companion_init_requires_key:
  "(getenv ''ROBOFLOW_API_KEY'' = None \<or> getenv ''ROBOFLOW_API_KEY'' = Some [] \<longrightarrow>
      companion_init getenv debug watching rest = Inl missing_key_error \<and>
      main_block getenv debug no_watch rest = (Some missing_key_error, False)) \<and>
   (\<forall>v. getenv ''ROBOFLOW_API_KEY'' = Some v \<and> v \<noteq> [] \<longrightarrow>
      companion_init getenv debug watching rest
        = (case rest of Some e \<Rightarrow> Inl e | None \<Rightarrow> Inr (initial_companion debug watching)) \<and>
      main_block getenv debug no_watch rest
        = (case rest of Some e \<Rightarrow> (Some e, False) | None \<Rightarrow> (None, True)))"
  by (auto simp: companion_init_def main_block_def split: option.splits)

theorem companion_init_requires_key_witness:
  "Map.empty ''ROBOFLOW_API_KEY'' = (None :: string option) \<and>
   companion_init Map.empty False True None = Inl missing_key_error \<and>
   main_block Map.empty False False None = (Some missing_key_error, False) \<and>
   [''ROBOFLOW_API_KEY'' \<mapsto> ''rf_key''] ''ROBOFLOW_API_KEY'' = Some ''rf_key'' \<and>
   companion_init [''ROBOFLOW_API_KEY'' \<mapsto> ''rf_key''] False True None
     = Inr (initial_companion False True) \<and>
   main_block [''ROBOFLOW_API_KEY'' \<mapsto> ''rf_key''] False False None = (None, True)"
  using companion_init_requires_key [of Map.empty False True None False]
    companion_init_requires_key [of "[''ROBOFLOW_API_KEY'' \<mapsto> ''rf_key'']" False True None False]
  by simp

section \<open>Properties of the board-mask cache\<close>

text \<open>
  Every failed update but one clears the cache: an exception anywhere, a segmentation
  without predictions and a missing bounding box all end in
  \<^verbatim>\<open>self.current_board_mask = None\<close>.
\<close>

lemma update_board_mask_failure_clears:
  "\<not> mask_update_succeeds env \<Longrightarrow> mask_cap_read env \<noteq> Inr None \<Longrightarrow>
   current_board_mask (update_board_mask env s) = None"
  by (auto simp: mask_update_succeeds_def update_board_mask_def
      split: sum.splits option.splits if_splits)

text \<open>
  Claim C2 at the failing input: the capture device returns \<^verbatim>\<open>ret = False\<close> while a
  mask is cached.  The update fails, and the early \<^verbatim>\<open>return\<close> leaves the old mask in
  the cache.
\<close>

theorem update_board_mask_capture_failure_keeps_stale_mask:
  "\<not> mask_update_succeeds
       \<lparr>mask_now = 1, mask_cap_read = Inr None, mask_segment = (\<lambda>f. Inr None),
        mask_extract_bbox = (\<lambda>p. Inr None)\<rparr> \<and>
   current_board_mask
     (update_board_mask
        \<lparr>mask_now = 1, mask_cap_read = Inr None, mask_segment = (\<lambda>f. Inr None),
         mask_extract_bbox = (\<lambda>p. Inr None)\<rparr>
        ((initial_companion False True)
           \<lparr>current_board_mask := Some \<lparr>bbox = (100, 100, 900, 900), confidence = 1, timestamp = 0\<rparr>\<rparr>))
     = Some \<lparr>bbox = (100, 100, 900, 900), confidence = 1, timestamp = 0\<rparr>"
  by (simp add: mask_update_succeeds_def update_board_mask_def initial_companion_def)

section \<open>Properties of the analysis scheduler\<close>

text \<open>
  Claim C10.  When the analyzer raises, the stored analysis is what it was before the
  call (an earlier result, or none), both when the coroutine runs on its own and as a step
  of the interleaved tasks; the tool path answers from it as it did before.
\<close>

theorem analyzer_failure_keeps_stored_analysis:
  "current_analysis (fst (analyze_new_position (Inl e) s fen frame)) = current_analysis s \<and>
   current_analysis (fst (perform (AnalyzerAnswers i (Inl e)) (s, ts))) = current_analysis s \<and>
   map_sum id fst (handle_function_call env (fst (analyze_new_position (Inl e) s fen frame)) fc)
     = map_sum id fst (handle_function_call env s fc)"
  by (auto simp: analyze_new_position_def analysis_after_analyzer_def handle_function_call_def
      Let_def split: task.splits option.splits sum.splits)

section \<open>Properties of the fast path and the polling loop\<close>

text \<open>
  Claim C1 at the failing input: a mask is cached, the crop is not empty and the piece
  detector answers with a single piece.  The extraction returns no position, so the
  polling pass cannot update \<open>current_board\<close>, but it never enters the fallback
  detector, which on this frame would have given a position.  The four other failure
  exits of the same function (no mask, empty crop, falsy detector answer, exception) all
  enter it.
\<close>

theorem fast_path_one_piece_never_enters_fallback:
  "fst (extract_fen_with_cached_mask
     \<lparr>fast_crop = (\<lambda>f b. Inr (800, 800)),
      detect_pieces_direct =
        (\<lambda>m. Inr (Some \<lparr>predictions = Some [''white-king''], other_entries = True\<rparr>)),
      pieces_to_fen_from_dimensions = (\<lambda>d w h m. Inr ''8/8/8/4K3/8/8/8/8''),
      debug_save = None\<rparr>
     \<lparr>save_frame_to_temp = (\<lambda>f. Inr ''/tmp/frame.png''),
      consensus_piece_detection =
        (\<lambda>p n m d. Inr \<lparr>piece_count = Some 2, consensus_fen = Some ''8/8/8/4K3/8/8/8/k7''\<rparr>),
      unlink = (\<lambda>p. None)\<rparr>
     ((initial_companion False True)
        \<lparr>current_board_mask :=
           Some \<lparr>bbox = (100, 100, 900, 900), confidence = 1, timestamp = 0\<rparr>\<rparr>)
     5) = None \<and>
   Fallback 5 \<notin> set (snd (extract_fen_with_cached_mask
     \<lparr>fast_crop = (\<lambda>f b. Inr (800, 800)),
      detect_pieces_direct =
        (\<lambda>m. Inr (Some \<lparr>predictions = Some [''white-king''], other_entries = True\<rparr>)),
      pieces_to_fen_from_dimensions = (\<lambda>d w h m. Inr ''8/8/8/4K3/8/8/8/8''),
      debug_save = None\<rparr>
     \<lparr>save_frame_to_temp = (\<lambda>f. Inr ''/tmp/frame.png''),
      consensus_piece_detection =
        (\<lambda>p n m d. Inr \<lparr>piece_count = Some 2, consensus_fen = Some ''8/8/8/4K3/8/8/8/k7''\<rparr>),
      unlink = (\<lambda>p. None)\<rparr>
     ((initial_companion False True)
        \<lparr>current_board_mask :=
           Some \<lparr>bbox = (100, 100, 900, 900), confidence = 1, timestamp = 0\<rparr>\<rparr>)
     5)) \<and>
   fst (fallback_full_detection
     \<lparr>save_frame_to_temp = (\<lambda>f. Inr ''/tmp/frame.png''),
      consensus_piece_detection =
        (\<lambda>p n m d. Inr \<lparr>piece_count = Some 2, consensus_fen = Some ''8/8/8/4K3/8/8/8/k7''\<rparr>),
      unlink = (\<lambda>p. None)\<rparr>
     ((initial_companion False True)
        \<lparr>current_board_mask :=
           Some \<lparr>bbox = (100, 100, 900, 900), confidence = 1, timestamp = 0\<rparr>\<rparr>)
     5) = Some ''8/8/8/4K3/8/8/8/k7''"
  by (simp add: extract_fen_with_cached_mask_def initial_companion_def detection_truthy_def
      prepend_events_def fallback_full_detection_def empty_board_def)

text \<open>
  A polling pass either leaves the state alone or stores a truthy, valid, different
  position that the extraction produced.
\<close>

lemma step_state:
  "fst (fast_fen_detection_step env s n) = s \<or>
   (\<exists>frame fen. current_board_mask s \<noteq> None \<and> loop_cap_read env = Inr (Some frame) \<and>
      fst (extract_fen_with_cached_mask (loop_fast env) (loop_fallback env) s frame) = Some fen \<and>
      fen \<noteq> [] \<and> is_valid_fen env fen \<and> Some fen \<noteq> current_board s \<and>
      fst (fast_fen_detection_step env s n) = s\<lparr>current_board := Some fen\<rparr>)"
  by (auto simp: fast_fen_detection_step_def on_board_change_def Let_def
      split: sum.splits option.splits prod.splits)

lemma step_changes:
  assumes "current_board_mask s \<noteq> None" and "loop_cap_read env = Inr (Some frame)"
    and "fst (extract_fen_with_cached_mask (loop_fast env) (loop_fallback env) s frame) = Some fen"
    and "fen \<noteq> []" and "is_valid_fen env fen" and "Some fen \<noteq> current_board s"
  shows "fst (fast_fen_detection_step env s n) = s\<lparr>current_board := Some fen\<rparr>"
  using assms
  by (auto simp: fast_fen_detection_step_def on_board_change_def Let_def
      split: sum.splits option.splits prod.splits)

text \<open>
  Claim C3.  In every polling pass \<open>current_board\<close> changes if and only if a
  position was extracted that is non-empty, accepted by \<open>is_valid_fen\<close> and different
  from the previous value; since \<^verbatim>\<open>chess.Board\<close> rejects the empty string, this is: non-null,
  valid and different.  On such an extraction the update always occurs, and in every
  other case the state is unchanged.
\<close>

theorem board_changes_iff_valid_and_different:
  "((current_board (fst (fast_fen_detection_step env s n)) \<noteq> current_board s)
      = (\<exists>frame fen. current_board_mask s \<noteq> None \<and> loop_cap_read env = Inr (Some frame) \<and>
           fst (extract_fen_with_cached_mask (loop_fast env) (loop_fallback env) s frame)
             = Some fen \<and>
           fen \<noteq> [] \<and> is_valid_fen env fen \<and> Some fen \<noteq> current_board s)) \<and>
   (\<not> is_valid_fen env [] \<longrightarrow>
      ((current_board (fst (fast_fen_detection_step env s n)) \<noteq> current_board s)
        = (\<exists>frame fen. current_board_mask s \<noteq> None \<and> loop_cap_read env = Inr (Some frame) \<and>
             fst (extract_fen_with_cached_mask (loop_fast env) (loop_fallback env) s frame)
               = Some fen \<and>
             is_valid_fen env fen \<and> Some fen \<noteq> current_board s))) \<and>
   (\<forall>frame fen. current_board_mask s \<noteq> None \<and> loop_cap_read env = Inr (Some frame) \<and>
        fst (extract_fen_with_cached_mask (loop_fast env) (loop_fallback env) s frame)
          = Some fen \<and>
        fen \<noteq> [] \<and> is_valid_fen env fen \<and> Some fen \<noteq> current_board s \<longrightarrow>
        fst (fast_fen_detection_step env s n) = s\<lparr>current_board := Some fen\<rparr>) \<and>
   (current_board (fst (fast_fen_detection_step env s n)) = current_board s \<longrightarrow>
      fst (fast_fen_detection_step env s n) = s)"
proof -
  let ?P = "\<lambda>frame fen. current_board_mask s \<noteq> None \<and> loop_cap_read env = Inr (Some frame) \<and>
           fst (extract_fen_with_cached_mask (loop_fast env) (loop_fallback env) s frame)
             = Some fen \<and>
           fen \<noteq> [] \<and> is_valid_fen env fen \<and> Some fen \<noteq> current_board s"
  have a: "(current_board (fst (fast_fen_detection_step env s n)) \<noteq> current_board s)
           = (\<exists>frame fen. ?P frame fen)"
  proof
    assume "current_board (fst (fast_fen_detection_step env s n)) \<noteq> current_board s"
    then have "fst (fast_fen_detection_step env s n) \<noteq> s" by auto
    with step_state [of env s n] show "\<exists>frame fen. ?P frame fen" by blast
  next
    assume "\<exists>frame fen. ?P frame fen"
    then obtain frame fen where p: "?P frame fen" by blast
    then have "fst (fast_fen_detection_step env s n) = s\<lparr>current_board := Some fen\<rparr>"
      by (intro step_changes) auto
    with p show "current_board (fst (fast_fen_detection_step env s n)) \<noteq> current_board s"
      by auto
  qed
  have b: "\<not> is_valid_fen env [] \<longrightarrow>
      ((current_board (fst (fast_fen_detection_step env s n)) \<noteq> current_board s)
        = (\<exists>frame fen. current_board_mask s \<noteq> None \<and> loop_cap_read env = Inr (Some frame) \<and>
             fst (extract_fen_with_cached_mask (loop_fast env) (loop_fallback env) s frame)
               = Some fen \<and>
             is_valid_fen env fen \<and> Some fen \<noteq> current_board s))"
    unfolding a by blast
  have c: "\<forall>frame fen. ?P frame fen \<longrightarrow>
        fst (fast_fen_detection_step env s n) = s\<lparr>current_board := Some fen\<rparr>"
    by (intro allI impI step_changes) auto
  have d: "current_board (fst (fast_fen_detection_step env s n)) = current_board s \<longrightarrow>
      fst (fast_fen_detection_step env s n) = s"
    using step_state [of env s n] by auto
  from a b c d show ?thesis by blast
qed

theorem board_changes_iff_valid_and_different_witness:
  "\<not> is_valid_fen
       \<lparr>loop_cap_read = Inr (Some 5), is_valid_fen = (\<lambda>f. f \<noteq> []),
        loop_fast =
          \<lparr>fast_crop = (\<lambda>f b. Inr (800, 800)),
           detect_pieces_direct =
             (\<lambda>m. Inr (Some \<lparr>predictions = Some [''white-king'', ''black-king''],
                               other_entries = True\<rparr>)),
           pieces_to_fen_from_dimensions = (\<lambda>d w h m. Inr ''8/8/8/4K3/8/8/8/k7''),
           debug_save = None\<rparr>,
        loop_fallback =
          \<lparr>save_frame_to_temp = (\<lambda>f. Inl (OtherError ''disk full'')),
           consensus_piece_detection = (\<lambda>p n m d. Inl (OtherError ''offline'')),
           unlink = (\<lambda>p. None)\<rparr>\<rparr> [] \<and>
   current_board
     ((initial_companion False True)
        \<lparr>current_board_mask :=
           Some \<lparr>bbox = (100, 100, 900, 900), confidence = 1, timestamp = 0\<rparr>\<rparr>) = None \<and>
   current_board (fst (fast_fen_detection_step
     \<lparr>loop_cap_read = Inr (Some 5), is_valid_fen = (\<lambda>f. f \<noteq> []),
      loop_fast =
        \<lparr>fast_crop = (\<lambda>f b. Inr (800, 800)),
         detect_pieces_direct =
           (\<lambda>m. Inr (Some \<lparr>predictions = Some [''white-king'', ''black-king''],
                             other_entries = True\<rparr>)),
         pieces_to_fen_from_dimensions = (\<lambda>d w h m. Inr ''8/8/8/4K3/8/8/8/k7''),
         debug_save = None\<rparr>,
      loop_fallback =
        \<lparr>save_frame_to_temp = (\<lambda>f. Inl (OtherError ''disk full'')),
         consensus_piece_detection = (\<lambda>p n m d. Inl (OtherError ''offline'')),
         unlink = (\<lambda>p. None)\<rparr>\<rparr>
     ((initial_companion False True)
        \<lparr>current_board_mask :=
           Some \<lparr>bbox = (100, 100, 900, 900), confidence = 1, timestamp = 0\<rparr>\<rparr>)
     0)) = Some ''8/8/8/4K3/8/8/8/k7''"
  using board_changes_iff_valid_and_different
    [of "\<lparr>loop_cap_read = Inr (Some 5), is_valid_fen = (\<lambda>f. f \<noteq> []),
          loop_fast =
            \<lparr>fast_crop = (\<lambda>f b. Inr (800, 800)),
             detect_pieces_direct =
               (\<lambda>m. Inr (Some \<lparr>predictions = Some [''white-king'', ''black-king''],
                                 other_entries = True\<rparr>)),
             pieces_to_fen_from_dimensions = (\<lambda>d w h m. Inr ''8/8/8/4K3/8/8/8/k7''),
             debug_save = None\<rparr>,
          loop_fallback =
            \<lparr>save_frame_to_temp = (\<lambda>f. Inl (OtherError ''disk full'')),
             consensus_piece_detection = (\<lambda>p n m d. Inl (OtherError ''offline'')),
             unlink = (\<lambda>p. None)\<rparr>\<rparr>"
        "(initial_companion False True)
           \<lparr>current_board_mask :=
              Some \<lparr>bbox = (100, 100, 900, 900), confidence = 1, timestamp = 0\<rparr>\<rparr>"
        0]
  by (simp add: initial_companion_def fast_fen_detection_step_def
      extract_fen_with_cached_mask_def detection_truthy_def empty_board_def
      on_board_change_def prepend_events_def)

section \<open>Properties of the fallback detector\<close>

lemma consensus_requests_append:
  "consensus_requests (xs @ ys) = consensus_requests xs @ consensus_requests ys"
  by (induction xs rule: consensus_requests.induct) auto

lemma fallback_result_not_sentinel:
  "fst (fallback_full_detection env s frame) = Some fen \<Longrightarrow> fen \<noteq> empty_board"
  by (auto simp: fallback_full_detection_def Let_def
      split: sum.splits option.splits if_splits)

lemma extract_result_cases:
  assumes "fst (extract_fen_with_cached_mask fast env s frame) = Some fen"
  shows "(\<exists>piece_result ps.
            detect_pieces_direct fast model_id = Inr (Some piece_result) \<and>
            predictions piece_result = Some ps \<and> 2 \<le> length ps \<and>
            pieces_to_fen_from_dimensions fast piece_result 640 640 model_id = Inr fen \<and>
            fen \<noteq> empty_board) \<or>
         fst (fallback_full_detection env s frame) = Some fen"
  using assms
  by (auto simp: extract_fen_with_cached_mask_def prepend_events_def Let_def
      split: sum.splits option.splits if_splits prod.splits)

text \<open>
  Claim C7, as the claim states it, fails for an invocation in which saving the frame to
  a temporary file raises: the handler returns no position and no detection pass is
  requested at all.
\<close>

theorem fallback_save_failure_no_request_counterexample:
  "fallback_full_detection
      \<lparr>save_frame_to_temp = (\<lambda>f. Inl (OtherError ''No space left on device'')),
       consensus_piece_detection =
         (\<lambda>p n m d. Inr \<lparr>piece_count = Some 2, consensus_fen = Some ''8/8/8/4K3/8/8/8/k7''\<rparr>),
       unlink = (\<lambda>p. None)\<rparr>
      (initial_companion False True) 5 = (None, [Fallback 5]) \<and>
   consensus_requests (snd (fallback_full_detection
      \<lparr>save_frame_to_temp = (\<lambda>f. Inl (OtherError ''No space left on device'')),
       consensus_piece_detection =
         (\<lambda>p n m d. Inr \<lparr>piece_count = Some 2, consensus_fen = Some ''8/8/8/4K3/8/8/8/k7''\<rparr>),
       unlink = (\<lambda>p. None)\<rparr>
      (initial_companion False True) 5)) = []"
  by (simp add: fallback_full_detection_def)

text \<open>
  Claim C7, amended.  The fallback detector makes exactly one consensus request, with 7
  passes and a minimum agreeing count of 3, in every invocation that saves the frame, and
  none (returning no position) when saving raises; it returns no position when fewer than
  2 pieces are counted or the consensus position is the empty-board sentinel, so a
  returned position has at least 2 pieces and is not the sentinel; and a position the fast
  path returns meets the same two criteria, or is the fallback's own.
\<close>

theorem fallback_seven_passes_min_three_when_saved:
  "consensus_requests (snd (fallback_full_detection env s frame))
     = (case save_frame_to_temp env frame of Inl e \<Rightarrow> [] | Inr path \<Rightarrow> [(7, 3)]) \<and>
   (\<forall>e. save_frame_to_temp env frame = Inl e \<longrightarrow>
      fallback_full_detection env s frame = (None, [Fallback frame])) \<and>
   (\<forall>path result.
      save_frame_to_temp env frame = Inr path \<and>
      consensus_piece_detection env path 7 3 (debug_dir_arg s) = Inr result \<and>
      ((case piece_count result of None \<Rightarrow> 0 | Some c \<Rightarrow> c) < 2 \<or>
       consensus_fen result = Some empty_board) \<longrightarrow>
      fst (fallback_full_detection env s frame) = None) \<and>
   (\<forall>fen. fst (fallback_full_detection env s frame) = Some fen \<longrightarrow>
      fen \<noteq> empty_board \<and>
      (\<exists>path result c. save_frame_to_temp env frame = Inr path \<and>
         consensus_piece_detection env path 7 3 (debug_dir_arg s) = Inr result \<and>
         piece_count result = Some c \<and> 2 \<le> c \<and> consensus_fen result = Some fen)) \<and>
   (\<forall>fen. fst (extract_fen_with_cached_mask fast env s frame) = Some fen \<longrightarrow>
      fen \<noteq> empty_board \<and>
      ((\<exists>piece_result ps.
          detect_pieces_direct fast model_id = Inr (Some piece_result) \<and>
          predictions piece_result = Some ps \<and> 2 \<le> length ps \<and>
          pieces_to_fen_from_dimensions fast piece_result 640 640 model_id = Inr fen) \<or>
       fst (fallback_full_detection env s frame) = Some fen))"
proof -
  have a: "consensus_requests (snd (fallback_full_detection env s frame))
     = (case save_frame_to_temp env frame of Inl e \<Rightarrow> [] | Inr path \<Rightarrow> [(7, 3)])"
    by (simp add: fallback_full_detection_def Let_def consensus_requests_append
        split: sum.splits option.splits)
  have a': "\<forall>e. save_frame_to_temp env frame = Inl e \<longrightarrow>
      fallback_full_detection env s frame = (None, [Fallback frame])"
    by (simp add: fallback_full_detection_def)
  have b: "\<forall>path result.
      save_frame_to_temp env frame = Inr path \<and>
      consensus_piece_detection env path 7 3 (debug_dir_arg s) = Inr result \<and>
      ((case piece_count result of None \<Rightarrow> 0 | Some c \<Rightarrow> c) < 2 \<or>
       consensus_fen result = Some empty_board) \<longrightarrow>
      fst (fallback_full_detection env s frame) = None"
    by (auto simp: fallback_full_detection_def Let_def split: sum.splits option.splits)
  have c: "\<forall>fen. fst (fallback_full_detection env s frame) = Some fen \<longrightarrow>
      fen \<noteq> empty_board \<and>
      (\<exists>path result c. save_frame_to_temp env frame = Inr path \<and>
         consensus_piece_detection env path 7 3 (debug_dir_arg s) = Inr result \<and>
         piece_count result = Some c \<and> 2 \<le> c \<and> consensus_fen result = Some fen)"
    by (auto simp: fallback_full_detection_def Let_def
        split: sum.splits option.splits if_splits)
  have d: "\<forall>fen. fst (extract_fen_with_cached_mask fast env s frame) = Some fen \<longrightarrow>
      fen \<noteq> empty_board \<and>
      ((\<exists>piece_result ps.
          detect_pieces_direct fast model_id = Inr (Some piece_result) \<and>
          predictions piece_result = Some ps \<and> 2 \<le> length ps \<and>
          pieces_to_fen_from_dimensions fast piece_result 640 640 model_id = Inr fen) \<or>
       fst (fallback_full_detection env s frame) = Some fen)"
  proof (intro allI impI)
    fix fen
    assume x: "fst (extract_fen_with_cached_mask fast env s frame) = Some fen"
    from extract_result_cases [OF x] fallback_result_not_sentinel [of env s frame fen]
    show "fen \<noteq> empty_board \<and>
      ((\<exists>piece_result ps.
          detect_pieces_direct fast model_id = Inr (Some piece_result) \<and>
          predictions piece_result = Some ps \<and> 2 \<le> length ps \<and>
          pieces_to_fen_from_dimensions fast piece_result 640 640 model_id = Inr fen) \<or>
       fst (fallback_full_detection env s frame) = Some fen)"
      by blast
  qed
  from a a' b c d show ?thesis by blast
qed

theorem fallback_seven_passes_min_three_when_saved_witness:
  "save_frame_to_temp
      \<lparr>save_frame_to_temp = (\<lambda>f. Inr ''/tmp/frame.png''),
       consensus_piece_detection =
         (\<lambda>p n m d. if n = 7 \<and> m = 3
            then Inr \<lparr>piece_count = Some 1, consensus_fen = Some ''8/8/8/4K3/8/8/8/8''\<rparr>
            else Inl (OtherError ''unexpected request'')),
       unlink = (\<lambda>p. None)\<rparr> 5 = Inr ''/tmp/frame.png'' \<and>
   consensus_requests (snd (fallback_full_detection
      \<lparr>save_frame_to_temp = (\<lambda>f. Inr ''/tmp/frame.png''),
       consensus_piece_detection =
         (\<lambda>p n m d. if n = 7 \<and> m = 3
            then Inr \<lparr>piece_count = Some 1, consensus_fen = Some ''8/8/8/4K3/8/8/8/8''\<rparr>
            else Inl (OtherError ''unexpected request'')),
       unlink = (\<lambda>p. None)\<rparr>
      (initial_companion False True) 5)) = [(7, 3)] \<and>
   fst (fallback_full_detection
      \<lparr>save_frame_to_temp = (\<lambda>f. Inr ''/tmp/frame.png''),
       consensus_piece_detection =
         (\<lambda>p n m d. if n = 7 \<and> m = 3
            then Inr \<lparr>piece_count = Some 1, consensus_fen = Some ''8/8/8/4K3/8/8/8/8''\<rparr>
            else Inl (OtherError ''unexpected request'')),
       unlink = (\<lambda>p. None)\<rparr>
      (initial_companion False True) 5) = None"
  using fallback_seven_passes_min_three_when_saved
    [of "\<lparr>save_frame_to_temp = (\<lambda>f. Inr ''/tmp/frame.png''),
          consensus_piece_detection =
            (\<lambda>p n m d. if n = 7 \<and> m = 3
               then Inr \<lparr>piece_count = Some 1, consensus_fen = Some ''8/8/8/4K3/8/8/8/8''\<rparr>
               else Inl (OtherError ''unexpected request'')),
          unlink = (\<lambda>p. None)\<rparr>"
        "initial_companion False True" 5]
  by simp

section \<open>Properties of the tool path\<close>



section \<open>Properties of the interleaved scheduler\<close>

lemma created_tasks_pending: "filter in_flight (created_tasks evs) = []"
  by (induction evs rule: created_tasks.induct) auto

lemma in_flight_split:
  assumes "i < length ts"
  shows "analyses_in_flight ts
         = analyses_in_flight (take i ts) + (if in_flight (ts ! i) then 1 else 0)
           + analyses_in_flight (drop (Suc i) ts)"
proof -
  have "ts = take i ts @ ts ! i # drop (Suc i) ts"
    using assms by (rule id_take_nth_drop)
  then have "analyses_in_flight ts
             = analyses_in_flight (take i ts @ ts ! i # drop (Suc i) ts)" by simp
  then show ?thesis by (simp add: analyses_in_flight_def)
qed

lemma in_flight_update:
  assumes "i < length ts"
  shows "analyses_in_flight (ts[i := x])
         = analyses_in_flight (take i ts) + (if in_flight x then 1 else 0)
           + analyses_in_flight (drop (Suc i) ts)"
  using assms by (simp add: upd_conv_take_nth_drop analyses_in_flight_def)

lemma in_flight_remove:
  "analyses_in_flight (remove_task i ts)
   = analyses_in_flight (take i ts) + analyses_in_flight (drop (Suc i) ts)"
  by (simp add: remove_task_def analyses_in_flight_def)

lemma in_flight_append_created:
  "analyses_in_flight (ts @ created_tasks evs) = analyses_in_flight ts"
  by (simp add: analyses_in_flight_def created_tasks_pending)

lemma handle_function_call_analyzing:
  "handle_function_call env s fc = Inr (r, s', evs) \<Longrightarrow> analyzing s' = analyzing s \<and> evs = []"
  by (auto simp: handle_function_call_def Let_def split: option.splits sum.splits if_splits)

lemma update_board_mask_analyzing: "analyzing (update_board_mask env s) = analyzing s"
  by (simp add: update_board_mask_def split: sum.splits option.splits)

lemma after_analyzer_cases:
  "analysis_after_analyzer outcome s = (s', to_send) \<Longrightarrow>
   (to_send = None \<longrightarrow> \<not> analyzing s') \<and> (to_send \<noteq> None \<longrightarrow> analyzing s' = analyzing s)"
  by (auto simp: analysis_after_analyzer_def Let_def split: sum.splits option.splits if_splits)

text \<open>
  Every action preserves the invariant, so it holds after any interleaving that starts
  from the constructor's state with no task.
\<close>

lemma perform_inv:
  assumes "scheduler_inv c"
  shows "scheduler_inv (perform a c)"
proof -
  obtain s ts where c: "c = (s, ts)" by (cases c)
  have inv: "analyses_in_flight ts = (if analyzing s then 1 else 0)"
    using assms c by (simp add: scheduler_inv_def)
  show ?thesis
  proof (cases a)
    case (BoardChange fen frame)
    then show ?thesis
      using inv c
      by (simp add: scheduler_inv_def on_board_change_def in_flight_append_created
          del: created_tasks.simps)
  next
    case (Start i)
    show ?thesis
    proof (cases "i < length ts")
      case False
      then show ?thesis using assms c Start by simp
    next
      case True
      show ?thesis
      proof (cases "ts ! i")
        case (Pending fen frame)
        then show ?thesis
          using inv c Start True in_flight_split [OF True]
          by (simp add: scheduler_inv_def in_flight_update in_flight_remove)
      next
        case (AwaitAnalyzer fen frame)
        then show ?thesis using assms c Start True by simp
      next
        case (AwaitSend x)
        then show ?thesis using assms c Start True by simp
      qed
    qed
  next
    case (AnalyzerAnswers i outcome)
    show ?thesis
    proof (cases "i < length ts")
      case False
      then show ?thesis using assms c AnalyzerAnswers by simp
    next
      case True
      show ?thesis
      proof (cases "ts ! i")
        case (Pending fen frame)
        then show ?thesis using assms c AnalyzerAnswers True by simp
      next
        case (AwaitAnalyzer fen frame)
        obtain s' to_send where r: "analysis_after_analyzer outcome s = (s', to_send)"
          by (cases "analysis_after_analyzer outcome s")
        have busy: "analyzing s"
          using inv in_flight_split [OF True] AwaitAnalyzer by (auto split: if_splits)
        show ?thesis
          using inv c AnalyzerAnswers True AwaitAnalyzer r busy after_analyzer_cases [OF r]
            in_flight_split [OF True]
          by (cases to_send) (simp_all add: scheduler_inv_def in_flight_update in_flight_remove)
      next
        case (AwaitSend x)
        then show ?thesis using assms c AnalyzerAnswers True by simp
      qed
    qed
  next
    case (SendDone i)
    show ?thesis
    proof (cases "i < length ts")
      case False
      then show ?thesis using assms c SendDone by simp
    next
      case True
      show ?thesis
      proof (cases "ts ! i")
        case (Pending fen frame)
        then show ?thesis using assms c SendDone True by simp
      next
        case (AwaitAnalyzer fen frame)
        then show ?thesis using assms c SendDone True by simp
      next
        case (AwaitSend x)
        have busy: "analyzing s"
          using inv in_flight_split [OF True] AwaitSend by (auto split: if_splits)
        show ?thesis
          using inv c SendDone True AwaitSend busy in_flight_split [OF True]
          by (simp add: scheduler_inv_def in_flight_remove)
      qed
    qed
  next
    case (Transcripts responses)
    then show ?thesis
      using inv c run_transcription_other_fields [of responses s]
      by (simp add: scheduler_inv_def)
  next
    case (ToolCall env fc)
    show ?thesis
    proof (cases "handle_function_call env s fc")
      case (Inl e)
      then show ?thesis using assms c ToolCall by simp
    next
      case (Inr res)
      obtain r s' evs where res: "res = (r, s', evs)" by (cases res)
      with Inr have "analyzing s' = analyzing s \<and> evs = []"
        by (intro handle_function_call_analyzing [of env s fc r]) simp
      then show ?thesis
        using inv c ToolCall Inr res by (simp add: scheduler_inv_def)
    qed
  next
    case (MaskUpdate env)
    then show ?thesis
      using inv c by (simp add: scheduler_inv_def update_board_mask_analyzing)
  qed
qed

lemma run_actions_inv: "scheduler_inv c \<Longrightarrow> scheduler_inv (run_actions acts c)"
proof (induction acts arbitrary: c)
  case Nil
  then show ?case by simp
next
  case (Cons a acts)
  from Cons.prems have "scheduler_inv (perform a c)" by (rule perform_inv)
  then have "scheduler_inv (run_actions acts (perform a c))" by (rule Cons.IH)
  then show ?case by simp
qed

lemma initial_inv: "scheduler_inv (initial_companion debug watching, [])"
  by (simp add: scheduler_inv_def initial_companion_def analyses_in_flight_def)

lemma at_most_one_in_flight:
  "analyses_in_flight (snd (run_actions acts (initial_companion debug watching, []))) \<le> 1"
  using run_actions_inv [OF initial_inv, of acts debug watching]
  by (simp add: scheduler_inv_def split: if_splits)

text \<open>
  Claim C4.  While the busy flag is set, a board change stores the new position and
  creates no task, and an analysis coroutine that starts returns at once without calling
  the analyzer, so the position is dropped, not queued; under every interleaving at most
  one analysis is in flight.
\<close>

theorem busy_scheduler_drops_new_position:
  assumes "analyzing s"
  shows "on_board_change s fen frame = (s\<lparr>current_board := Some fen\<rparr>, []) \<and>
         perform (BoardChange fen frame) (s, ts) = (s\<lparr>current_board := Some fen\<rparr>, ts) \<and>
         analyze_new_position outcome s fen frame = (s, []) \<and>
         (\<forall>i. i < length ts \<and> ts ! i = Pending fen frame \<longrightarrow>
            perform (Start i) (s, ts) = (s, remove_task i ts)) \<and>
         analyses_in_flight (snd (run_actions acts (initial_companion debug watching, []))) \<le> 1 \<and>
         scheduler_inv (run_actions acts (initial_companion debug watching, []))"
  using assms at_most_one_in_flight [of acts debug watching]
    run_actions_inv [OF initial_inv, of acts debug watching]
  by (simp add: on_board_change_def analyze_new_position_def)

theorem busy_scheduler_drops_new_position_witness:
  "analyzing ((initial_companion False True)\<lparr>analyzing := True\<rparr>) \<and>
   on_board_change ((initial_companion False True)\<lparr>analyzing := True\<rparr>) ''8/8/8/4K3/8/8/8/k7'' 7
     = ((initial_companion False True)
          \<lparr>analyzing := True, current_board := Some ''8/8/8/4K3/8/8/8/k7''\<rparr>, []) \<and>
   run_actions
     [BoardChange ''8/8/8/4K3/8/8/8/k7'' 1, Start 0, BoardChange ''8/8/8/8/4K3/8/8/k7'' 2, Start 1]
     (initial_companion False True, [])
   = ((initial_companion False True)
        \<lparr>analyzing := True, current_board := Some ''8/8/8/8/4K3/8/8/k7''\<rparr>,
      [AwaitAnalyzer ''8/8/8/4K3/8/8/8/k7'' 1])"
  using busy_scheduler_drops_new_position
    [of "(initial_companion False True)\<lparr>analyzing := True\<rparr>" "''8/8/8/4K3/8/8/8/k7''" 7
        "[]" "Inl (OtherError ''unused'')"
        "[BoardChange ''8/8/8/4K3/8/8/8/k7'' 1, Start 0,
          BoardChange ''8/8/8/8/4K3/8/8/k7'' 2, Start 1]"
        False True]
  by (simp add: initial_companion_def on_board_change_def remove_task_def)

text \<open>
  Claim C5.  An analysis that sets the busy flag ends with the flag cleared whatever the
  analyzer answers; after a failed analysis the next board change creates a task and a
  later successful analysis is stored.  In the interleaved model the task leaves with the
  flag cleared when the analyzer raises, when nothing is sent, and when the sending ends.
\<close>

theorem analysis_always_clears_busy_flag:
  assumes "\<not> analyzing s"
  shows "\<not> analyzing (fst (analyze_new_position outcome s fen frame)) \<and>
         snd (on_board_change (fst (analyze_new_position (Inl e) s fen frame)) fen' frame')
           = [CreateAnalysisTask fen' frame'] \<and>
         current_analysis
           (fst (analyze_new_position (Inr an)
                   (fst (analyze_new_position (Inl e) s fen frame)) fen' frame')) = Some an \<and>
         (\<forall>i. i < length ts \<and> ts ! i = AwaitAnalyzer fen frame \<longrightarrow>
            \<not> analyzing (fst (perform (AnalyzerAnswers i (Inl e)) (s0, ts))) \<and>
            snd (perform (AnalyzerAnswers i (Inl e)) (s0, ts)) = remove_task i ts) \<and>
         (\<forall>i. i < length ts \<and> ts ! i = AwaitAnalyzer fen frame \<longrightarrow>
            (case analysis_after_analyzer (Inr an) s0 of
               (s', None) \<Rightarrow>
                 \<not> analyzing s' \<and>
                 perform (AnalyzerAnswers i (Inr an)) (s0, ts) = (s', remove_task i ts)
             | (s', Some a) \<Rightarrow>
                 perform (AnalyzerAnswers i (Inr an)) (s0, ts) = (s', ts[i := AwaitSend a]))) \<and>
         (\<forall>i a. i < length ts \<and> ts ! i = AwaitSend a \<longrightarrow>
            \<not> analyzing (fst (perform (SendDone i) (s0, ts))) \<and>
            snd (perform (SendDone i) (s0, ts)) = remove_task i ts)"
proof -
  have a: "\<not> analyzing (fst (analyze_new_position outcome s fen frame))"
    using assms
    by (auto simp: analyze_new_position_def analysis_after_analyzer_def Let_def
        split: sum.splits option.splits prod.splits)
  have b: "snd (on_board_change (fst (analyze_new_position (Inl e) s fen frame)) fen' frame')
           = [CreateAnalysisTask fen' frame']"
    using assms
    by (simp add: analyze_new_position_def analysis_after_analyzer_def on_board_change_def)
  have c: "current_analysis
           (fst (analyze_new_position (Inr an)
                   (fst (analyze_new_position (Inl e) s fen frame)) fen' frame')) = Some an"
    using assms
    by (auto simp: analyze_new_position_def analysis_after_analyzer_def Let_def
        split: option.splits)
  have d: "\<forall>i. i < length ts \<and> ts ! i = AwaitAnalyzer fen frame \<longrightarrow>
            \<not> analyzing (fst (perform (AnalyzerAnswers i (Inl e)) (s0, ts))) \<and>
            snd (perform (AnalyzerAnswers i (Inl e)) (s0, ts)) = remove_task i ts"
    by (simp add: analysis_after_analyzer_def)
  have f: "\<forall>i. i < length ts \<and> ts ! i = AwaitAnalyzer fen frame \<longrightarrow>
            (case analysis_after_analyzer (Inr an) s0 of
               (s', None) \<Rightarrow>
                 \<not> analyzing s' \<and>
                 perform (AnalyzerAnswers i (Inr an)) (s0, ts) = (s', remove_task i ts)
             | (s', Some a) \<Rightarrow>
                 perform (AnalyzerAnswers i (Inr an)) (s0, ts) = (s', ts[i := AwaitSend a]))"
    by (auto simp: analysis_after_analyzer_def Let_def split: option.splits)
  have g: "\<forall>i a. i < length ts \<and> ts ! i = AwaitSend a \<longrightarrow>
            \<not> analyzing (fst (perform (SendDone i) (s0, ts))) \<and>
            snd (perform (SendDone i) (s0, ts)) = remove_task i ts"
    by simp
  from a b c d f g show ?thesis by blast
qed

theorem analysis_always_clears_busy_flag_witness:
  "\<not> analyzing (initial_companion False True) \<and>
   analyze_new_position (Inl (OtherError ''engine pool exhausted''))
     (initial_companion False True) ''8/8/8/4K3/8/8/8/k7'' 1
   = (initial_companion False True,
      [AnalyzeBothPerspectives ''8/8/8/4K3/8/8/8/k7'' 1 []]) \<and>
   snd (on_board_change
          (fst (analyze_new_position (Inl (OtherError ''engine pool exhausted''))
                  (initial_companion False True) ''8/8/8/4K3/8/8/8/k7'' 1))
          ''8/8/8/8/4K3/8/8/k7'' 2)
   = [CreateAnalysisTask ''8/8/8/8/4K3/8/8/k7'' 2]"
  using analysis_always_clears_busy_flag
    [of "initial_companion False True" "Inl (OtherError ''engine pool exhausted'')"
        "''8/8/8/4K3/8/8/8/k7''" 1 "OtherError ''engine pool exhausted''"
        "''8/8/8/8/4K3/8/8/k7''" 2 "[]" "[]" "initial_companion False True"]
  by (simp add: initial_companion_def analyze_new_position_def analysis_after_analyzer_def)

end
